theory Spec2Isabelle
  imports Complex_Main
begin

section \<open>Data model (types.ts)\<close>

text \<open>
  JavaScript strings are modelled as \<open>string\<close>; one \<open>char\<close> stands for one code unit, so
  \<open>length\<close> is the \<open>.length\<close> of the source. String-literal unions become datatypes and
  optional fields (\<open>field?: T\<close>) become options, \<open>None\<close> being \<open>undefined\<close>.
\<close>

datatype skill_category = Technical | Tools | Soft | Domain | SystemDesign
datatype skill_level = Beginner | Intermediate | Advanced | Expert
datatype skill_source = FromResume | FromProject | Manual | FromTask

record Skill =
  sk_name :: string
  sk_category :: skill_category
  sk_level :: skill_level
  sk_verified :: "bool option"
  sk_source :: "skill_source option"
  sk_confidence :: "int option"

datatype employment = FullTime | Contract | Internship

record WorkExperience =
  we_id :: string
  we_company :: string
  we_role :: string
  we_startDate :: string
  we_endDate :: string
  we_description :: string
  we_skillsUsed :: "string list"
  we_impactMetrics :: "string list option"
  we_location :: "string option"
  we_type :: "employment option"

record Education =
  ed_id :: string
  ed_institution :: string
  ed_degree :: string
  ed_year :: string

record Certification =
  ce_id :: string
  ce_name :: string
  ce_issuer :: string
  ce_date :: string
  ce_expiry :: "string option"
  ce_credentialUrl :: "string option"
  ce_logo :: "string option"

datatype project_type = Personal | Academic | Professional | CareerPilotAI

record Project =
  pr_id :: string
  pr_name :: string
  pr_type :: project_type
  pr_description :: string
  pr_techStack :: "string list"
  pr_link :: "string option"
  pr_image :: "string option"
  pr_aiQualityScore :: "int option"

record UserProfile =
  name :: string
  role :: string
  avatarUrl :: string
  bio :: string
  location :: string
  email :: "string option"
  joinedDate :: string
  openToOpportunities :: bool
  targetRole :: string
  readinessScore :: int
  level :: string
  profileStrength :: int
  skills :: "Skill list"
  experience :: "WorkExperience list"
  education :: "Education list"
  certifications :: "Certification list"
  projects :: "Project list"

datatype task_type = Learning | Practice | Building | Reading
datatype task_status = Todo | InProgress | Done
datatype task_difficulty = Easy | Medium | Hard

record Task =
  t_id :: string
  t_title :: string
  t_type :: task_type
  t_duration :: string
  t_status :: task_status
  t_difficulty :: task_difficulty
  t_description :: string





section \<open>Task status toggle (context/TaskContext.tsx)\<close>

text \<open>
  \<open>toggleTaskStatus\<close> maps over the task list held by the provider, replaces the status of
  every task carrying the given id, installs the new list and hands the same list to
  \<open>saveBatch\<close>. \<open>saveTasks\<close> of the mock backend stores the list under the user's key.
\<close>

record task_store =
  ts_tasks :: "Task list"
  ts_saved :: "string \<rightharpoonup> Task list"

definition toggleOne :: "string \<Rightarrow> Task \<Rightarrow> Task" where
  "toggleOne taskId t =
     (if t_id t = taskId
      then t\<lparr>t_status := (if t_status t = Done then Todo else Done)\<rparr>
      else t)"

definition toggled :: "string \<Rightarrow> Task list \<Rightarrow> Task list" where
  "toggled taskId tasks = map (toggleOne taskId) tasks"

definition toggleTaskStatus :: "string \<Rightarrow> string \<Rightarrow> task_store \<Rightarrow> task_store" where
  "toggleTaskStatus userKey taskId st =
     (let updated = toggled taskId (ts_tasks st)
      in st\<lparr>ts_tasks := updated, ts_saved := (ts_saved st)(userKey \<mapsto> updated)\<rparr>)"

definition sampleTask :: Task where
  "sampleTask = \<lparr>t_id = ''t1'', t_title = ''Read a chapter'', t_type = Reading,
     t_duration = ''2 hours'', t_status = InProgress, t_difficulty = Easy,
     t_description = ''''\<rparr>"

definition sampleStore :: task_store where
  "sampleStore = \<lparr>ts_tasks = [sampleTask], ts_saved = Map.empty\<rparr>"


section \<open>Profile strength (Dashboard)\<close>

definition requiredFields :: "(UserProfile \<Rightarrow> string) list" where
  "requiredFields = [name, role, location, bio, targetRole]"

text \<open>
  The source accumulates into a mutable \<open>score\<close>; each statement is one \<open>let\<close>.
\<close>

definition calculateProfileStrength :: "UserProfile \<Rightarrow> int" where
  "calculateProfileStrength user =
     (let score = foldl (\<lambda>score field. if length (field user) > 2 then score + 10 else score)
                    0 requiredFields;
          score = (if avatarUrl user \<noteq> [] \<and> length (avatarUrl user) > 50
                   then score + 10 else score);
          score = (if length (skills user) \<ge> 3 then score + 15
                   else if length (skills user) > 0 then score + 5 else score);
          score = (if length (experience user) \<ge> 1 then score + 15 else score);
          score = (if length (education user) \<ge> 1 then score + 5 else score);
          score = (if length (projects user) \<ge> 1 then score + 5 else score)
      in min 100 score)"

text \<open>The weights as the specification lists them.\<close>

definition populated :: "string \<Rightarrow> bool" where
  "populated s = (length s > 2)"

definition spec_identity_points :: "UserProfile \<Rightarrow> int" where
  "spec_identity_points u =
     10 * int (length (filter populated [name u, role u, location u, bio u, targetRole u]))"

definition spec_avatar_points :: "UserProfile \<Rightarrow> int" where
  "spec_avatar_points u = (if length (avatarUrl u) > 50 then 10 else 0)"

definition spec_skill_points :: "UserProfile \<Rightarrow> int" where
  "spec_skill_points u =
     (if length (skills u) \<ge> 3 then 15 else if length (skills u) \<in> {1, 2} then 5 else 0)"

definition spec_strength :: "UserProfile \<Rightarrow> int" where
  "spec_strength u =
     min 100 (spec_identity_points u + spec_avatar_points u + spec_skill_points u
              + (if experience u \<noteq> [] then 15 else 0)
              + (if education u \<noteq> [] then 5 else 0)
              + (if projects u \<noteq> [] then 5 else 0))"

definition emptyProfile :: UserProfile where
  "emptyProfile = \<lparr>name = '''', role = '''', avatarUrl = '''', bio = '''', location = '''',
     email = None, joinedDate = '''', openToOpportunities = False, targetRole = '''',
     readinessScore = 0, level = '''', profileStrength = 0, skills = [], experience = [],
     education = [], certifications = [], projects = []\<rparr>"

definition sampleSkill :: Skill where
  "sampleSkill = \<lparr>sk_name = ''Figma'', sk_category = Tools, sk_level = Expert,
     sk_verified = Some True, sk_source = Some FromProject, sk_confidence = Some 98\<rparr>"

definition sampleExperience :: WorkExperience where
  "sampleExperience = \<lparr>we_id = ''1'', we_company = ''TechFlow Inc.'',
     we_role = ''Senior Product Designer'', we_startDate = ''2021'', we_endDate = ''Present'',
     we_description = ''Spearheaded the redesign of the core SaaS platform.'',
     we_skillsUsed = [''Figma'', ''React''],
     we_impactMetrics = Some [''25% increase in user retention''],
     we_location = None, we_type = Some FullTime\<rparr>"

definition sampleEducation :: Education where
  "sampleEducation = \<lparr>ed_id = ''1'', ed_institution = ''California College of the Arts'',
     ed_degree = ''BA Interaction Design'', ed_year = ''2014 - 2018''\<rparr>"

definition sampleProject :: Project where
  "sampleProject = \<lparr>pr_id = ''1'', pr_name = ''FinTech Dashboard'', pr_type = Professional,
     pr_description = ''Financial analytics tool.'', pr_techStack = [''Figma'', ''React''],
     pr_link = None, pr_image = Some ''https://picsum.photos/seed/fintech/400/200'',
     pr_aiQualityScore = None\<rparr>"

definition fullProfile :: UserProfile where
  "fullProfile = \<lparr>name = ''Alex Mercer'', role = ''Senior Product Designer'',
     avatarUrl = replicate 51 (CHR ''a''), bio = ''Designer'', location = ''San Francisco, CA'',
     email = Some ''alex@example.com'', joinedDate = ''March 2023'',
     openToOpportunities = True, targetRole = ''Staff Product Designer'',
     readinessScore = 85, level = ''Senior'', profileStrength = 85,
     skills = [sampleSkill, sampleSkill, sampleSkill], experience = [sampleExperience],
     education = [sampleEducation], certifications = [], projects = [sampleProject]\<rparr>"


section \<open>String helpers\<close>






section \<open>Roadmap reconciliation (gap-analysis page, \<open>fetchData\<close>)\<close>



text \<open>
  An exception is a value: \<open>TypeError\<close> is what reading \<open>.forEach\<close> of an absent
  \<open>items\<close> raises.
\<close>

datatype js_error = TypeError string | Error string


























section \<open>Trend series (Dashboard, \<open>generateTrendChart\<close>)\<close>





















section \<open>Focus-area resolver (Tasks page, \<open>getSmartFocusArea\<close>)\<close>

datatype gap_priority = High | Medium | Low



















definition alex :: UserProfile where
  "alex = fullProfile"





section \<open>Mock persistence boundary (services/api.ts, \<open>MockBackend\<close>)\<close>

text \<open>
  The mock backend handles users as untyped objects (\<open>any[]\<close>) which it spreads and
  destructures, so an object is a finite map from property names to values; a property
  that is absent is \<open>undefined\<close>. \<open>{...a, ...b}\<close> is \<open>a ++ b\<close> and
  \<open>const {password, ...profile} = user\<close> is the restriction of \<open>user\<close> to the other names.
\<close>

datatype jsval =
    JNull
  | JBool bool
  | JNum rat
  | JStr string
  | JArr "jsval list"
  | JObj "(string \<times> jsval) list"

type_synonym obj = "string \<rightharpoonup> jsval"

text \<open>
  \<open>DEFAULT_AVATAR\<close> is imported from \<open>utils/constants\<close> and the join date of a seeded
  user is the current month and year; both are parameters.
\<close>

record mock_env =
  DEFAULT_AVATAR :: string
  monthYear :: string

definition strs :: "string list \<Rightarrow> jsval" where
  "strs xs = JArr (map JStr xs)"

definition DEFAULT_USER_DATA :: "mock_env \<Rightarrow> obj" where
  "DEFAULT_USER_DATA env = map_of
     [(''name'', JStr ''Alex Mercer''),
      (''role'', JStr ''Senior Product Designer''),
      (''location'', JStr ''San Francisco, CA''),
      (''avatarUrl'', JStr (DEFAULT_AVATAR env)),
      (''bio'', JStr (''Passionate Senior Product Designer with over 7 years of experience ''
          @ ''building accessible, user-centric digital products. I specialize in design ''
          @ ''systems, prototyping, and user research.'')),
      (''email'', JStr ''alex@example.com''),
      (''phone'', JStr ''+1 (555) 012-3456''),
      (''joinedDate'', JStr ''March 2023''),
      (''openToOpportunities'', JBool True),
      (''targetRole'', JStr ''Staff Product Designer''),
      (''targetIndustry'', JStr ''SaaS / FinTech''),
      (''timelineGoal'', JStr ''6 Months''),
      (''readinessScore'', JNum 85),
      (''profileStrength'', JNum 85),
      (''level'', JStr ''Senior''),
      (''resumeLastUpdated'', JStr ''Oct 24, 2023''),
      (''insights'', JArr
         [JObj [(''type'', JStr ''Success''),
                (''message'', JStr (''Strong experience description in '' @ [CHR 0x22]
                    @ ''TechFlow'' @ [CHR 0x22] @ ''.''))],
          JObj [(''type'', JStr ''Warning''),
                (''message'', JStr (''Consider adding metric outcomes to your project ''
                    @ [CHR 0x22] @ ''EcoTrack'' @ [CHR 0x22] @ ''.''))]]),
      (''skills'', JArr
         [JObj [(''name'', JStr ''UI Design''), (''category'', JStr ''Domain''),
                (''level'', JStr ''Expert''), (''verified'', JBool True),
                (''source'', JStr ''Resume''), (''confidence'', JNum 95)],
          JObj [(''name'', JStr ''Figma''), (''category'', JStr ''Tools''),
                (''level'', JStr ''Expert''), (''verified'', JBool True),
                (''source'', JStr ''Project''), (''confidence'', JNum 98)],
          JObj [(''name'', JStr ''Prototyping''), (''category'', JStr ''Domain''),
                (''level'', JStr ''Expert''), (''verified'', JBool True),
                (''source'', JStr ''Resume''), (''confidence'', JNum 90)],
          JObj [(''name'', JStr ''React''), (''category'', JStr ''Technical''),
                (''level'', JStr ''Intermediate''), (''verified'', JBool False),
                (''source'', JStr ''Task''), (''confidence'', JNum 65)]]),
      (''experience'', JArr
         [JObj [(''id'', JStr ''1''), (''company'', JStr ''TechFlow Inc.''),
                (''role'', JStr ''Senior Product Designer''), (''startDate'', JStr ''2021''),
                (''endDate'', JStr ''Present''), (''type'', JStr ''Full-time''),
                (''description'',
                   JStr ''Spearheaded the redesign of the core SaaS platform.''),
                (''skillsUsed'', strs [''Figma'', ''React'']),
                (''impactMetrics'', strs [''25% increase in user retention''])]]),
      (''education'', JArr
         [JObj [(''id'', JStr ''1''),
                (''institution'', JStr ''California College of the Arts''),
                (''degree'', JStr ''BA Interaction Design''),
                (''year'', JStr ''2014 - 2018'')]]),
      (''certifications'', JArr
         [JObj [(''id'', JStr ''1''), (''name'', JStr ''Google UX Design''),
                (''issuer'', JStr ''Google''), (''date'', JStr ''Jan 2023'')]]),
      (''projects'', JArr
         [JObj [(''id'', JStr ''1''), (''name'', JStr ''FinTech Dashboard''),
                (''type'', JStr ''Professional''),
                (''description'', JStr ''Financial analytics tool.''),
                (''techStack'', strs [''Figma'', ''React'']),
                (''image'', JStr ''https://picsum.photos/seed/fintech/400/200'')]]),
      (''preferences'', JObj
         [(''weeklyHours'', JNum 15), (''learningStyle'', JStr ''Visual''),
          (''remotePreference'', JStr ''Hybrid''),
          (''targetLocations'', strs [''San Francisco'']),
          (''salaryRange'', JStr ''$180k+''), (''availability'', JStr ''3-6 Months''),
          (''companySize'', JStr ''Scale-up'')])]"

definition EMPTY_USER_DATA :: "mock_env \<Rightarrow> obj" where
  "EMPTY_USER_DATA env = map_of
     [(''name'', JStr ''''),
      (''role'', JStr ''''),
      (''location'', JStr ''''),
      (''avatarUrl'', JStr (DEFAULT_AVATAR env)),
      (''bio'', JStr ''''),
      (''email'', JStr ''''),
      (''phone'', JStr ''''),
      (''linkedinUrl'', JStr ''''),
      (''joinedDate'', JStr ''''),
      (''openToOpportunities'', JBool False),
      (''targetRole'', JStr ''''),
      (''targetIndustry'', JStr ''''),
      (''targetCompanies'', JArr []),
      (''readinessScore'', JNum 0),
      (''level'', JStr ''''),
      (''profileStrength'', JNum 0),
      (''insights'', JArr []),
      (''skills'', JArr []),
      (''experience'', JArr []),
      (''education'', JArr []),
      (''certifications'', JArr []),
      (''projects'', JArr []),
      (''preferences'', JObj
         [(''weeklyHours'', JNum 0), (''learningStyle'', JStr ''Visual''),
          (''remotePreference'', JStr ''Remote''), (''targetLocations'', JArr []),
          (''salaryRange'', JStr ''''), (''availability'', JStr ''Immediate''),
          (''companySize'', JStr ''Startup'')])]"

text \<open>
  The \<open>users_db\<close> entry of \<open>localStorage\<close>: nothing stored, a text that \<open>JSON.parse\<close>
  rejects, or the array written by \<open>saveUsersDB\<close>.
\<close>

datatype users_cell = NotStored | Garbled | Stored "obj list"

definition seedFull :: "mock_env \<Rightarrow> obj list" where
  "seedFull env =
     [DEFAULT_USER_DATA env ++ [''password'' \<mapsto> JStr ''password''],
      EMPTY_USER_DATA env
        ++ [''name'' \<mapsto> JStr ''Umesh Chapala'', ''email'' \<mapsto> JStr ''umeshchapala@gmail.com'',
            ''password'' \<mapsto> JStr ''password'', ''joinedDate'' \<mapsto> JStr (monthYear env)]]"

definition seedDefault :: "mock_env \<Rightarrow> obj list" where
  "seedDefault env = [DEFAULT_USER_DATA env ++ [''password'' \<mapsto> JStr ''password'']]"

definition getUsersDB :: "mock_env \<Rightarrow> users_cell \<Rightarrow> obj list \<times> users_cell" where
  "getUsersDB env cell =
     (case cell of
        NotStored \<Rightarrow> (seedFull env, Stored (seedFull env))
      | Stored users \<Rightarrow>
          if users = [] then (seedFull env, Stored (seedFull env)) else (users, cell)
      | Garbled \<Rightarrow> (seedDefault env, Stored (seedDefault env)))"

definition saveUsersDB :: "obj list \<Rightarrow> users_cell" where
  "saveUsersDB users = Stored users"

definition withoutPassword :: "obj \<Rightarrow> obj" where
  "withoutPassword user = user |` (- {''password''})"

definition login ::
  "mock_env \<Rightarrow> string \<Rightarrow> string \<Rightarrow> users_cell \<Rightarrow> (js_error + obj) \<times> users_cell" where
  "login env emailAddr password cell =
     (let (users, cell) = getUsersDB env cell
      in case find (\<lambda>u. u ''email'' = Some (JStr emailAddr)
                          \<and> u ''password'' = Some (JStr password)) users of
           Some user \<Rightarrow> (Inr (withoutPassword user), cell)
         | None \<Rightarrow> (Inl (Error ''Invalid credentials''), cell))"

definition getUser :: "mock_env \<Rightarrow> string option \<Rightarrow> users_cell \<Rightarrow> obj \<times> users_cell" where
  "getUser env emailArg cell =
     (case emailArg of
        None \<Rightarrow> (DEFAULT_USER_DATA env, cell)
      | Some emailAddr \<Rightarrow>
          if emailAddr = [] then (DEFAULT_USER_DATA env, cell)
          else (let (users, cell) = getUsersDB env cell
                in case find (\<lambda>u. u ''email'' = Some (JStr emailAddr)) users of
                     Some user \<Rightarrow> (withoutPassword user, cell)
                   | None \<Rightarrow> (DEFAULT_USER_DATA env, cell)))"

text \<open>\<open>findIndex\<close>: the position of the first element satisfying the predicate.\<close>

fun findIndex :: "('a \<Rightarrow> bool) \<Rightarrow> 'a list \<Rightarrow> nat option" where
  "findIndex P [] = None"
| "findIndex P (x # xs) = (if P x then Some 0 else map_option Suc (findIndex P xs))"

definition updateUser :: "mock_env \<Rightarrow> string \<Rightarrow> obj \<Rightarrow> users_cell \<Rightarrow> obj \<times> users_cell" where
  "updateUser env emailAddr updates cell =
     (let (users, cell) = getUsersDB env cell
      in case findIndex (\<lambda>u. u ''email'' = Some (JStr emailAddr)) users of
           Some index \<Rightarrow>
             (let updatedUser = (users ! index) ++ updates;
                  users = users[index := updatedUser]
              in (withoutPassword updatedUser, saveUsersDB users))
         | None \<Rightarrow> (DEFAULT_USER_DATA env, cell))"

definition sampleEnv :: mock_env where
  "sampleEnv = \<lparr>DEFAULT_AVATAR = ''https://example.com/avatar.png'', monthYear = ''June 2023''\<rparr>"



section \<open>Backend server: \<open>PUT /api/user/:email\<close>\<close>














subsection \<open>The SQL statements of the handler\<close>



















subsection \<open>Connection and transaction\<close>











subsection \<open>The handler\<close>





subsection \<open>What a committed update amounts to\<close>






subsection \<open>Sample database and requests\<close>










section \<open>Duration parser (Dashboard, \<open>parseDuration\<close>)\<close>

text \<open>
  A JavaScript number is an exact rational or \<open>NaN\<close> (\<open>None\<close>); the rounding and the
  finite range of IEEE doubles are not modelled. \<open>\d\<close> is an ASCII digit; \<open>\s\<close> and \<open>trim\<close> use the white space
  and line terminator code units below 256.
\<close>

type_synonym jsnum = "rat option"

definition isDigit :: "char \<Rightarrow> bool" where
  "isDigit c = (48 \<le> (of_char c :: nat) \<and> (of_char c :: nat) \<le> 57)"

definition isSpace :: "char \<Rightarrow> bool" where
  "isSpace c = ((of_char c :: nat) \<in> {9, 10, 11, 12, 13, 32, 160})"


definition digitVal :: "char \<Rightarrow> nat" where
  "digitVal c = of_char c - 48"

definition digitsVal :: "string \<Rightarrow> nat" where
  "digitsVal ds = foldl (\<lambda>acc c. 10 * acc + digitVal c) 0 ds"

text \<open>
  The pattern \<open>(\d+(\.\d+)?)\<close> anchored at the head of the text: the captured text and
  what follows it. Every quantifier is greedy, and giving back a character never lets the
  rest of the pattern match, since the character given back is a digit or a dot.
\<close>

definition matchNumber :: "string \<Rightarrow> (string \<times> string) option" where
  "matchNumber s =
     (let ds = takeWhile isDigit s;
          r = dropWhile isDigit s
      in if ds = [] then None
         else (case r of
                 [] \<Rightarrow> Some (ds, r)
               | c # r' \<Rightarrow>
                   if c = CHR ''.'' \<and> takeWhile isDigit r' \<noteq> []
                   then Some (ds @ CHR ''.'' # takeWhile isDigit r', dropWhile isDigit r')
                   else Some (ds, r)))"

text \<open>The pattern \<open>(\d+(\.\d+)?)\s*u\<close> anchored at the head, for a unit letter \<open>u\<close>:
  capture group 1.\<close>

definition matchAt :: "char \<Rightarrow> string \<Rightarrow> string option" where
  "matchAt u s =
     (case matchNumber s of
        None \<Rightarrow> None
      | Some (num, r) \<Rightarrow>
          (case dropWhile isSpace r of
             [] \<Rightarrow> None
           | c # _ \<Rightarrow> if c = u then Some num else None))"

text \<open>\<open>String.prototype.match\<close> with a pattern without the global flag: the leftmost
  position at which the pattern matches.\<close>

fun regexMatch :: "char \<Rightarrow> string \<Rightarrow> string option" where
  "regexMatch u [] = None"
| "regexMatch u (c # cs) =
     (case matchAt u (c # cs) of
        Some num \<Rightarrow> Some num
      | None \<Rightarrow> regexMatch u cs)"

text \<open>
  \<open>parseFloat\<close> on a text without leading white space: the longest prefix that is a
  decimal literal (sign, digits, fraction, exponent), \<open>NaN\<close> if there is none. The
  literal \<open>Infinity\<close> is not recognised: the only caller passes lower-cased text.
\<close>

definition scale10 :: "rat \<Rightarrow> int \<Rightarrow> rat" where
  "scale10 v e = (if 0 \<le> e then v * 10 ^ nat e else v / 10 ^ nat (- e))"

definition exponentPart :: "string \<Rightarrow> int" where
  "exponentPart s =
     (case s of
        [] \<Rightarrow> 0
      | c # r \<Rightarrow>
          if c = CHR ''e'' \<or> c = CHR ''E''
          then (case r of
                  [] \<Rightarrow> 0
                | sg # r' \<Rightarrow>
                    if sg = CHR ''-''
                    then (if takeWhile isDigit r' = [] then 0
                          else - int (digitsVal (takeWhile isDigit r')))
                    else if sg = CHR ''+''
                    then (if takeWhile isDigit r' = [] then 0
                          else int (digitsVal (takeWhile isDigit r')))
                    else int (digitsVal (takeWhile isDigit r)))
          else 0)"

definition unsignedFloat :: "string \<Rightarrow> jsnum" where
  "unsignedFloat s =
     (let ip = takeWhile isDigit s;
          r = dropWhile isDigit s;
          hasDot = (r \<noteq> [] \<and> hd r = CHR ''.'');
          fp = (if hasDot then takeWhile isDigit (tl r) else []);
          r = (if hasDot then dropWhile isDigit (tl r) else r)
      in if ip = [] \<and> fp = [] then None
         else Some (scale10 (rat_of_nat (digitsVal ip)
                             + rat_of_nat (digitsVal fp) / 10 ^ length fp)
                      (exponentPart r)))"

definition parseFloat :: "string \<Rightarrow> jsnum" where
  "parseFloat s =
     (case s of
        [] \<Rightarrow> None
      | c # r \<Rightarrow>
          if c = CHR ''-'' then map_option uminus (unsignedFloat r)
          else if c = CHR ''+'' then unsignedFloat r
          else unsignedFloat s)"






definition numValue :: "string \<Rightarrow> rat" where
  "numValue n =
     (let ds = takeWhile isDigit n;
          fs = drop 1 (dropWhile isDigit n)
      in rat_of_nat (digitsVal ds) + rat_of_nat (digitsVal fs) / 10 ^ length fs)"

definition unitAmount :: "char \<Rightarrow> string \<Rightarrow> rat" where
  "unitAmount u d = (case regexMatch u d of None \<Rightarrow> 0 | Some g \<Rightarrow> numValue g)"

definition spec_hours :: "string \<Rightarrow> rat" where
  "spec_hours d =
     (let total = unitAmount (CHR ''h'') d + unitAmount (CHR ''m'') d / 60
      in if total \<noteq> 0 then total
         else (case parseFloat d of
                 Some v \<Rightarrow> if v = 0 then 1 else v
               | None \<Rightarrow> 1))"


section \<open>Theorems\<close>

subsection \<open>Task status toggle\<close>

lemma toggleOne_twice:
  "t_status t \<noteq> InProgress \<Longrightarrow> toggleOne i (toggleOne i t) = t"
  by (cases "t_status t") (simp_all add: toggleOne_def)

lemma toggleOne_status:
  "t_id t = i \<Longrightarrow> t_status (toggleOne i t) = (if t_status t = Done then Todo else Done)"
  by (simp add: toggleOne_def)

lemma toggleOne_other: "t_id t \<noteq> i \<Longrightarrow> toggleOne i t = t"
  by (simp add: toggleOne_def)

lemma toggleOne_frame:
  "toggleOne i t = t\<lparr>t_status := t_status (toggleOne i t)\<rparr>"
  by (simp add: toggleOne_def)

lemma ts_tasks_toggle:
  "ts_tasks (toggleTaskStatus u i st) = toggled i (ts_tasks st)"
  by (simp add: toggleTaskStatus_def Let_def)

text \<open>
  C2 (as stated, refuted): a task whose status is "In Progress" is moved to "Done" by
  the first toggle and to "Todo" by the second, so two toggles do not restore it and the
  first toggle is not a move between "Todo" and "Done".
\<close>

theorem toggle_twice_counterexample:
  "map t_status (ts_tasks (toggleTaskStatus ''u'' ''t1''
      (toggleTaskStatus ''u'' ''t1'' sampleStore))) = [Todo]
   \<and> map t_status (ts_tasks sampleStore) = [InProgress]
   \<and> map t_status (ts_tasks (toggleTaskStatus ''u'' ''t1'' sampleStore)) = [Done]"
  by (simp add: toggleTaskStatus_def toggled_def toggleOne_def sampleStore_def
      sampleTask_def Let_def)

text \<open>
  C2 (amended): for every task list and task id, the toggle keeps the length and order of
  the list; a task with another id is unchanged; a task with the given id keeps every
  field but the status, which becomes "Todo" if it was "Done" and "Done" otherwise (so
  it is "Todo" or "Done" afterwards); and toggling twice restores every task whose
  status was "Todo" or "Done".
\<close>

theorem toggle_twice_restores:
  assumes "k < length (ts_tasks st)"
  shows "length (ts_tasks (toggleTaskStatus u i st)) = length (ts_tasks st)
    \<and> (t_id (ts_tasks st ! k) \<noteq> i \<longrightarrow>
          ts_tasks (toggleTaskStatus u i st) ! k = ts_tasks st ! k)
    \<and> (t_id (ts_tasks st ! k) = i \<longrightarrow>
          ts_tasks (toggleTaskStatus u i st) ! k
            = (ts_tasks st ! k)\<lparr>t_status :=
                 (if t_status (ts_tasks st ! k) = Done then Todo else Done)\<rparr>)
    \<and> t_status (ts_tasks (toggleTaskStatus u i st) ! k)
         \<in> {Todo, Done, t_status (ts_tasks st ! k)}
    \<and> (t_status (ts_tasks st ! k) \<noteq> InProgress \<longrightarrow>
          ts_tasks (toggleTaskStatus u i (toggleTaskStatus u i st)) ! k = ts_tasks st ! k)"
proof -
  let ?t = "ts_tasks st ! k"
  have one: "ts_tasks (toggleTaskStatus u i st) ! k = toggleOne i ?t"
    using assms by (simp add: ts_tasks_toggle toggled_def)
  have two: "ts_tasks (toggleTaskStatus u i (toggleTaskStatus u i st)) ! k
               = toggleOne i (toggleOne i ?t)"
    using assms by (simp add: ts_tasks_toggle toggled_def)
  have len: "length (ts_tasks (toggleTaskStatus u i st)) = length (ts_tasks st)"
    by (simp add: ts_tasks_toggle toggled_def)
  have st: "t_status (toggleOne i ?t) \<in> {Todo, Done, t_status ?t}"
    by (simp add: toggleOne_def)
  show ?thesis
    using len st toggleOne_twice [of ?t i]
    by (simp add: one two) (simp add: toggleOne_def)
qed

theorem toggle_twice_restores_witness:
  "ts_tasks (toggleTaskStatus ''u'' ''t1'' (toggleTaskStatus ''u'' ''t1''
       (sampleStore\<lparr>ts_tasks := [sampleTask\<lparr>t_status := Todo\<rparr>]\<rparr>))) ! 0
     = sampleTask\<lparr>t_status := Todo\<rparr>
   \<and> t_status (ts_tasks (toggleTaskStatus ''u'' ''t1''
       (sampleStore\<lparr>ts_tasks := [sampleTask\<lparr>t_status := Todo\<rparr>]\<rparr>)) ! 0) = Done"
  using toggle_twice_restores
    [of 0 "sampleStore\<lparr>ts_tasks := [sampleTask\<lparr>t_status := Todo\<rparr>]\<rparr>" "''t1''" "''u''"]
  by (simp add: sampleStore_def sampleTask_def toggleTaskStatus_def toggled_def
      toggleOne_def Let_def)


subsection \<open>Profile strength\<close>

lemma identity_fold:
  "foldl (\<lambda>score field. if length (field user) > 2 then score + 10 else score)
     (0::int) requiredFields = spec_identity_points user"
  by (simp add: requiredFields_def spec_identity_points_def populated_def)

lemma strength_eq: "calculateProfileStrength u = spec_strength u"
  unfolding calculateProfileStrength_def identity_fold Let_def spec_strength_def
    spec_avatar_points_def spec_skill_points_def
  by (cases "skills u"; cases "tl (skills u)"; cases "tl (tl (skills u))")
     (auto simp: Suc_le_eq)

lemma identity_bounds: "0 \<le> spec_identity_points u \<and> spec_identity_points u \<le> 50"
proof -
  have "length (filter populated [name u, role u, location u, bio u, targetRole u]) \<le> 5"
    using length_filter_le [of populated "[name u, role u, location u, bio u, targetRole u]"]
    by simp
  then show ?thesis by (simp add: spec_identity_points_def)
qed

lemma identity_none:
  "\<forall>f \<in> set requiredFields. length (f u) \<le> 2 \<Longrightarrow> spec_identity_points u = 0"
  by (simp add: requiredFields_def spec_identity_points_def populated_def)

lemma identity_all:
  "\<forall>f \<in> set requiredFields. length (f u) > 2 \<Longrightarrow> spec_identity_points u = 50"
  by (simp add: requiredFields_def spec_identity_points_def populated_def)

text \<open>
  C5: the score computed by \<open>calculateProfileStrength\<close> is the sum of the fixed weights of
  the specification, clamped to 100 (the weights add up to at most 100, so the clamp never
  lowers the sum); it lies in \<open>[0, 100]\<close>; a profile with no populated identity field, no
  avatar longer than 50, no skill, experience, education or project scores 0; a profile with
  all five identity fields populated, an avatar longer than 50, at least three skills and
  at least one experience, education and project entry scores exactly 100.
\<close>

theorem profile_strength_weights:
  "calculateProfileStrength u = spec_strength u
   \<and> spec_strength u
       = spec_identity_points u + spec_avatar_points u + spec_skill_points u
         + (if experience u \<noteq> [] then 15 else 0)
         + (if education u \<noteq> [] then 5 else 0)
         + (if projects u \<noteq> [] then 5 else 0)
   \<and> 0 \<le> calculateProfileStrength u \<and> calculateProfileStrength u \<le> 100
   \<and> ((\<forall>f \<in> set requiredFields. length (f u) \<le> 2) \<and> length (avatarUrl u) \<le> 50
        \<and> skills u = [] \<and> experience u = [] \<and> education u = [] \<and> projects u = []
        \<longrightarrow> calculateProfileStrength u = 0)
   \<and> ((\<forall>f \<in> set requiredFields. length (f u) > 2) \<and> length (avatarUrl u) > 50
        \<and> length (skills u) \<ge> 3 \<and> experience u \<noteq> [] \<and> education u \<noteq> []
        \<and> projects u \<noteq> []
        \<longrightarrow> calculateProfileStrength u = 100)"
proof -
  have sum: "spec_strength u
       = spec_identity_points u + spec_avatar_points u + spec_skill_points u
         + (if experience u \<noteq> [] then 15 else 0)
         + (if education u \<noteq> [] then 5 else 0)
         + (if projects u \<noteq> [] then 5 else 0)"
    using identity_bounds [of u]
    by (simp add: spec_strength_def spec_avatar_points_def spec_skill_points_def)
  have rng: "0 \<le> spec_strength u \<and> spec_strength u \<le> 100"
    using identity_bounds [of u]
    by (simp add: spec_strength_def spec_avatar_points_def spec_skill_points_def)
  have none: "(\<forall>f \<in> set requiredFields. length (f u) \<le> 2) \<and> length (avatarUrl u) \<le> 50
        \<and> skills u = [] \<and> experience u = [] \<and> education u = [] \<and> projects u = []
        \<longrightarrow> spec_strength u = 0"
    using identity_none [of u]
    by (simp add: spec_strength_def spec_avatar_points_def spec_skill_points_def)
  have full: "(\<forall>f \<in> set requiredFields. length (f u) > 2) \<and> length (avatarUrl u) > 50
        \<and> length (skills u) \<ge> 3 \<and> experience u \<noteq> [] \<and> education u \<noteq> []
        \<and> projects u \<noteq> []
        \<longrightarrow> spec_strength u = 100"
    using identity_all [of u]
    by (simp add: spec_strength_def spec_avatar_points_def spec_skill_points_def)
  show ?thesis
    unfolding strength_eq using sum rng none full by blast
qed

theorem profile_strength_weights_witness:
  "calculateProfileStrength emptyProfile = 0 \<and> calculateProfileStrength fullProfile = 100"
proof -
  have e: "(\<forall>f \<in> set requiredFields. length (f emptyProfile) \<le> 2)
        \<and> length (avatarUrl emptyProfile) \<le> 50
        \<and> skills emptyProfile = [] \<and> experience emptyProfile = []
        \<and> education emptyProfile = [] \<and> projects emptyProfile = []"
    by (simp add: requiredFields_def emptyProfile_def)
  have f: "(\<forall>f \<in> set requiredFields. length (f fullProfile) > 2)
        \<and> length (avatarUrl fullProfile) > 50
        \<and> length (skills fullProfile) \<ge> 3 \<and> experience fullProfile \<noteq> []
        \<and> education fullProfile \<noteq> [] \<and> projects fullProfile \<noteq> []"
    by (simp add: requiredFields_def fullProfile_def)
  show ?thesis
    using e f profile_strength_weights [of emptyProfile]
      profile_strength_weights [of fullProfile]
    by blast
qed

subsection \<open>Roadmap reconciliation\<close>






















subsection \<open>Trend series\<close>










subsection \<open>Focus-area resolver\<close>









subsection \<open>Mock persistence boundary\<close>

lemma withoutPassword_none: "withoutPassword user ''password'' = None"
  by (simp add: withoutPassword_def)

lemma withoutPassword_other: "k \<noteq> ''password'' \<Longrightarrow> withoutPassword user k = user k"
  by (simp add: withoutPassword_def)

lemma default_no_password: "DEFAULT_USER_DATA env ''password'' = None"
  by (simp add: DEFAULT_USER_DATA_def)

lemma default_email: "DEFAULT_USER_DATA env ''email'' = Some (JStr ''alex@example.com'')"
  by (simp add: DEFAULT_USER_DATA_def)


lemma findIndex_Some:
  "findIndex P xs = Some i \<Longrightarrow> i < length xs \<and> P (xs ! i) \<and> (\<forall>j < i. \<not> P (xs ! j))"
proof (induction xs arbitrary: i)
  case Nil
  then show ?case by simp
next
  case (Cons x xs)
  show ?case
  proof (cases "P x")
    case True
    with Cons.prems show ?thesis by simp
  next
    case False
    with Cons.prems obtain i' where i': "findIndex P xs = Some i'" "i = Suc i'" by auto
    from Cons.IH [OF i'(1)] False i'(2) show ?thesis
      by (auto simp: nth_Cons split: nat.splits)
  qed
qed

lemma findIndex_None: "findIndex P xs = None \<Longrightarrow> \<forall>x \<in> set xs. \<not> P x"
  by (induction xs) (auto split: if_splits)

text \<open>
  C10: whatever the stored users database, the profile returned by a successful \<open>login\<close>,
  by \<open>getUser\<close> and by \<open>updateUser\<close> has no \<open>password\<close> property, while the user found by
  \<open>login\<close> is stored with the password that was checked.
\<close>

theorem mock_profile_has_no_password:
  "(\<forall>profile. fst (login env mail pw cell) = Inr profile \<longrightarrow> profile ''password'' = None)
   \<and> fst (getUser env emailOpt cell) ''password'' = None
   \<and> fst (updateUser env mail updates cell) ''password'' = None
   \<and> (\<forall>profile. fst (login env mail pw cell) = Inr profile \<longrightarrow>
        (\<exists>user \<in> set (fst (getUsersDB env cell)).
            user ''password'' = Some (JStr pw) \<and> profile = withoutPassword user))"
proof -
  have l: "\<forall>profile. fst (login env mail pw cell) = Inr profile \<longrightarrow>
        (\<exists>user \<in> set (fst (getUsersDB env cell)).
            user ''password'' = Some (JStr pw) \<and> profile = withoutPassword user)"
    by (auto simp: login_def Let_def find_Some_iff split: prod.splits option.splits)
  have g: "fst (getUser env emailOpt cell) ''password'' = None"
    by (auto simp: getUser_def Let_def withoutPassword_none default_no_password
        split: prod.splits option.splits)
  have u: "fst (updateUser env mail updates cell) ''password'' = None"
    by (auto simp: updateUser_def Let_def withoutPassword_none default_no_password
        split: prod.splits option.splits)
  from l have l': "\<forall>profile. fst (login env mail pw cell) = Inr profile \<longrightarrow>
      profile ''password'' = None"
    by (auto simp: withoutPassword_none)
  show ?thesis using l l' g u by blast
qed

theorem mock_profile_has_no_password_witness:
  "fst (login sampleEnv ''alex@example.com'' ''password'' NotStored)
     = Inr (DEFAULT_USER_DATA sampleEnv)
   \<and> DEFAULT_USER_DATA sampleEnv ''password'' = None
   \<and> (hd (fst (getUsersDB sampleEnv NotStored))) ''password'' = Some (JStr ''password'')"
proof -
  have found: "fst (login sampleEnv ''alex@example.com'' ''password'' NotStored)
     = Inr (withoutPassword (DEFAULT_USER_DATA sampleEnv ++ [''password'' \<mapsto> JStr ''password'']))"
    by (simp add: login_def getUsersDB_def seedFull_def default_email)
  have strip: "withoutPassword (DEFAULT_USER_DATA sampleEnv ++ [''password'' \<mapsto> JStr ''password''])
      = DEFAULT_USER_DATA sampleEnv"
    by (rule ext) (simp add: withoutPassword_def restrict_map_def default_no_password)
  have stored: "(hd (fst (getUsersDB sampleEnv NotStored))) ''password'' = Some (JStr ''password'')"
    by (simp add: getUsersDB_def seedFull_def)
  have "DEFAULT_USER_DATA sampleEnv ''password'' = None"
    using mock_profile_has_no_password
      [of sampleEnv "''alex@example.com''" "''password''" NotStored None "Map.empty"]
      found strip
    by simp
  then show ?thesis using found strip stored by simp
qed

subsection \<open>Backend update handler\<close>





lemma fold_if_cons:
  "fold g ((if b then [a] else []) @ rest) r = fold g rest (if b then g a r else r)"
  by simp
























subsection \<open>Partial profile updates\<close>











subsection \<open>Duration parser\<close>


































lemma spec_hours_fallback:
  "regexMatch (CHR ''h'') d = None \<Longrightarrow> regexMatch (CHR ''m'') d = None \<Longrightarrow>
   parseFloat d = None \<Longrightarrow> spec_hours d = 1"
  by (simp add: spec_hours_def unitAmount_def)






end
